theory Spec2Isabelle
  imports Main "HOL-Library.Multiset"
begin

section \<open>mpatterns: regular-expression validation of call arguments\<close>

text \<open>
  A shallow embedding of \<^verbatim>\<open>mpatterns.py\<close>. The module consists of
  \<^item> three pattern constants (lines 19--21),
  \<^item> \<^verbatim>\<open>Validator\<close>, one call of \<^verbatim>\<open>re.match\<close> (lines 31--46),
  \<^item> \<^verbatim>\<open>PatternValidator\<close>, which checks the \<^verbatim>\<open>str\<close> of every positional and
    keyword value (lines 49--83),
  \<^item> \<^verbatim>\<open>ValidateDecorator\<close> (lines 86--113) and
  \<^item> the three named subclasses, exception classes and decorators (lines 119--162).

  The constants and the classes are embedded as they are written. The body of
  \<^verbatim>\<open>ValidateDecorator\<close> is not: its lines 103--113 are indented by eight spaces
  right after the docstring, which stands at four and opens no block, and Python
  refuses such a line (\<^verbatim>\<open>IndentationError: unexpected indent\<close>). There is no
  function to embed, nor are there the three decorators that call it.

  Python strings are modelled as \<^typ>\<open>string\<close> and exceptions as the left summand of a
  sum type. Names are the source's, without their leading underscore (\<^verbatim>\<open>_pr\<close> is
  \<open>pr\<close>, \<^verbatim>\<open>_validate_patterns\<close> is \<open>validate_patterns\<close>); a method that two
  classes have carries its class's name.
\<close>

subsection \<open>The part of \<^verbatim>\<open>re\<close> that the module's patterns use\<close>

text \<open>
  \<^verbatim>\<open>re.match(pattern, string)\<close> compiles the pattern and matches it at position 0 of
  the string. The three patterns of the module are built from \<^verbatim>\<open>^\<close>, \<^verbatim>\<open>$\<close>,
  character sets with ranges and a backslash-escaped literal, and \<^verbatim>\<open>*\<close>. This
  syntax is parsed here into the items that \<^verbatim>\<open>sre_parse\<close> produces for it.
\<close>

datatype set_item = LITERAL_item char | RANGE char char

datatype chr = LITERAL char | IN "set_item list"

datatype item = AT_BEGINNING | AT_END | One chr | MAX_REPEAT chr

text \<open>
  The outcome of parsing a pattern: \<open>Parsed\<close> items; \<open>Rejected\<close>, where
  \<^verbatim>\<open>re\<close> raises \<^verbatim>\<open>re.error\<close> (nothing to repeat, multiple repeat, unterminated
  character set, bad character range, bad escape at the end of the pattern); or
  \<open>Beyond\<close>, for a pattern that uses syntax outside the fragment parsed here.
\<close>

datatype 'a parsed = Parsed 'a | Rejected | Beyond

definition backslash :: char where
  "backslash = CHR 0x5C"

definition newline :: char where
  "newline = CHR 0x0A"

definition code :: "char \<Rightarrow> nat" where
  "code c = of_char c"

definition ascii_alnum :: "char \<Rightarrow> bool" where
  "ascii_alnum c =
     ((code CHR ''0'' \<le> code c \<and> code c \<le> code CHR ''9'') \<or>
      (code CHR ''a'' \<le> code c \<and> code c \<le> code CHR ''z'') \<or>
      (code CHR ''A'' \<le> code c \<and> code c \<le> code CHR ''Z''))"

text \<open>
  \<^verbatim>\<open>*\<close> repeats the item before it: there must be one, it must not be an anchor
  (nothing to repeat) and it must not be a repeat already (multiple repeat).
\<close>

definition repeat_last :: "item list \<Rightarrow> item list parsed" where
  "repeat_last acc =
     (if acc = [] then Rejected
      else case last acc of
             AT_BEGINNING \<Rightarrow> Rejected
           | AT_END \<Rightarrow> Rejected
           | MAX_REPEAT _ \<Rightarrow> Rejected
           | One c \<Rightarrow> Parsed (butlast acc @ [MAX_REPEAT c]))"

text \<open>
  \<open>parse\<close> is the loop over the pattern, \<open>parse_set\<close> the inner loop over a character
  set (a \<^verbatim>\<open>]\<close> closes the set unless it is its first member) and \<open>parse_range\<close> the
  step after a member \<open>code1\<close> has been read: a following \<^verbatim>\<open>-\<close> makes a range unless
  the set ends right after it. An escaped letter or digit (a category such as
  \<^verbatim>\<open>\d\<close>), a negated set and the special characters other than
  \<^verbatim>\<open>^ $ * [\<close> are outside the fragment.
\<close>

fun parse :: "item list \<Rightarrow> string \<Rightarrow> item list parsed"
  and parse_set :: "item list \<Rightarrow> set_item list \<Rightarrow> string \<Rightarrow> item list parsed"
  and parse_range :: "item list \<Rightarrow> set_item list \<Rightarrow> char \<Rightarrow> string \<Rightarrow> item list parsed"
where
  "parse acc [] = Parsed acc"
| "parse acc (c # cs) =
     (if c = CHR ''^'' then parse (acc @ [AT_BEGINNING]) cs
      else if c = CHR ''$'' then parse (acc @ [AT_END]) cs
      else if c = CHR ''*'' then
        (case repeat_last acc of
           Parsed acc' \<Rightarrow> parse acc' cs
         | Rejected \<Rightarrow> Rejected
         | Beyond \<Rightarrow> Beyond)
      else if c = CHR ''['' then
        (case cs of
           [] \<Rightarrow> Rejected
         | n # _ \<Rightarrow> if n = CHR ''^'' then Beyond else parse_set acc [] cs)
      else if c \<in> set (''.+?{()|'' @ [backslash]) then Beyond
      else parse (acc @ [One (LITERAL c)]) cs)"
| "parse_set acc st [] = Rejected"
| "parse_set acc st (c # cs) =
     (if c = CHR '']'' \<and> st \<noteq> [] then parse (acc @ [One (IN st)]) cs
      else if c = backslash then
        (case cs of
           [] \<Rightarrow> Rejected
         | e # cs' \<Rightarrow> if ascii_alnum e then Beyond else parse_range acc st e cs')
      else parse_range acc st c cs)"
| "parse_range acc st code1 [] = Rejected"
| "parse_range acc st code1 (d # ds) =
     (if d = CHR ''-'' then
        (case ds of
           [] \<Rightarrow> Rejected
         | that # ds' \<Rightarrow>
             if that = CHR '']'' then
               parse (acc @ [One (IN (st @ [LITERAL_item code1, LITERAL_item CHR ''-'']))]) ds'
             else if that = backslash then
               (case ds' of
                  [] \<Rightarrow> Rejected
                | e # ds'' \<Rightarrow>
                    if ascii_alnum e then Beyond
                    else if code e < code code1 then Rejected
                    else parse_set acc (st @ [RANGE code1 e]) ds'')
             else if code that < code code1 then Rejected
             else parse_set acc (st @ [RANGE code1 that]) ds')
      else parse_set acc (st @ [LITERAL_item code1]) (d # ds))"

fun in_item :: "char \<Rightarrow> set_item \<Rightarrow> bool" where
  "in_item x (LITERAL_item c) = (x = c)"
| "in_item x (RANGE lo hi) = (code lo \<le> code x \<and> code x \<le> code hi)"

fun accepts :: "chr \<Rightarrow> char \<Rightarrow> bool" where
  "accepts (LITERAL c) x = (x = c)"
| "accepts (IN items) x = list_ex (in_item x) items"

text \<open>
  Matching the items against the rest \<open>s\<close> of the string; \<open>at_start\<close> says that no
  character has been consumed yet. Without flags \<^verbatim>\<open>^\<close> matches at the start of the
  string only, and \<^verbatim>\<open>$\<close> at its end and also just before a newline that is its last
  character. A repeat takes as many characters as it can and gives them back one at a
  time; the match succeeds as soon as the items are used up (\<^verbatim>\<open>re.match\<close> does not
  ask for the end of the string).
\<close>

fun sre_match :: "item list \<Rightarrow> bool \<Rightarrow> string \<Rightarrow> bool" where
  "sre_match [] at_start s = True"
| "sre_match (AT_BEGINNING # r) at_start s = (at_start \<and> sre_match r at_start s)"
| "sre_match (AT_END # r) at_start s = ((s = [] \<or> s = [newline]) \<and> sre_match r at_start s)"
| "sre_match (One c # r) at_start [] = False"
| "sre_match (One c # r) at_start (x # xs) = (accepts c x \<and> sre_match r False xs)"
| "sre_match (MAX_REPEAT c # r) at_start [] = sre_match r at_start []"
| "sre_match (MAX_REPEAT c # r) at_start (x # xs) =
     ((accepts c x \<and> sre_match (MAX_REPEAT c # r) False xs) \<or> sre_match r at_start (x # xs))"

subsection \<open>Exceptions and results\<close>

text \<open>
  What a call can raise: \<^verbatim>\<open>re.error\<close>, \<^verbatim>\<open>TypeError\<close> and \<^verbatim>\<open>AttributeError\<close>.
\<close>

datatype exn = re_error | TypeError | AttributeError

type_synonym 'a result = "exn + 'a"

datatype match_object = Match

type_synonym compiled = "string \<Rightarrow> match_object option"

text \<open>
  \<open>re_rest\<close> stands for \<^verbatim>\<open>re\<close> on the patterns outside the parsed fragment:
  compiling such a pattern raises or gives a compiled pattern, whose \<^verbatim>\<open>match\<close>
  returns a match object or \<^verbatim>\<open>None\<close>. It is a parameter of everything below, so
  that nothing is assumed about those patterns.
\<close>

type_synonym re_rest = "string \<Rightarrow> compiled result"

definition re_compile :: "re_rest \<Rightarrow> string \<Rightarrow> compiled result" where
  "re_compile rest pattern =
     (case parse [] pattern of
        Parsed r \<Rightarrow> Inr (\<lambda>s. if sre_match r True s then Some Match else None)
      | Rejected \<Rightarrow> Inl re_error
      | Beyond \<Rightarrow> rest pattern)"

definition re_match :: "re_rest \<Rightarrow> string \<Rightarrow> string \<Rightarrow> match_object option result" where
  "re_match rest pattern s =
     (case re_compile rest pattern of Inl e \<Rightarrow> Inl e | Inr c \<Rightarrow> Inr (c s))"

text \<open>\<^verbatim>\<open>bool(m)\<close> for a match object or \<^verbatim>\<open>None\<close>.\<close>

definition py_bool :: "match_object option \<Rightarrow> bool" where
  "py_bool m = (case m of None \<Rightarrow> False | Some _ \<Rightarrow> True)"

subsection \<open>Values and \<^verbatim>\<open>str\<close>\<close>

datatype pyval = PyStr string | PyInt int | PyBool bool | PyNone

definition digit :: "nat \<Rightarrow> char" where
  "digit d = char_of (48 + d)"

fun str_nat :: "nat \<Rightarrow> string" where
  "str_nat n = (if n < 10 then [digit n] else str_nat (n div 10) @ [digit (n mod 10)])"

declare str_nat.simps [simp del]

fun str :: "pyval \<Rightarrow> string" where
  "str (PyStr s) = s"
| "str (PyInt i) = (if i < 0 then CHR ''-'' # str_nat (nat (- i)) else str_nat (nat i))"
| "str (PyBool b) = (if b then ''True'' else ''False'')"
| "str PyNone = ''None''"

subsection \<open>The pattern constants (lines 19--21)\<close>

definition ALPHANUMERIC_PATTERN :: string where
  "ALPHANUMERIC_PATTERN = ''^[a-zA-Z_][a-zA-Z0-9_'' @ [backslash] @ ''$]*$''"

definition NUMERIC_PATTERN :: string where
  "NUMERIC_PATTERN = ''[0-9]*$''"

definition ALPHA_PATTERN :: string where
  "ALPHA_PATTERN = ''[a-zA-Z_]*$''"

subsection \<open>\<^verbatim>\<open>Validator\<close> (lines 31--46)\<close>

record Validator_obj =
  pr :: string

definition Validator_init :: "string \<Rightarrow> Validator_obj" where
  "Validator_init pattern_regex = \<lparr>pr = pattern_regex\<rparr>"

definition Validator_validate :: "re_rest \<Rightarrow> Validator_obj \<Rightarrow> string \<Rightarrow> bool result" where
  "Validator_validate rest self element =
     (case re_match rest (pr self) element of
        Inl e \<Rightarrow> Inl e
      | Inr m \<Rightarrow> Inr (py_bool m))"

subsection \<open>\<^verbatim>\<open>PatternValidator\<close> (lines 49--83)\<close>

text \<open>
  An instance has the one attribute \<^verbatim>\<open>_validator\<close>, which \<^verbatim>\<open>__init__\<close> sets;
  the object that \<^verbatim>\<open>object.__new__\<close> returns does not have it yet.
\<close>

record PatternValidator_obj =
  validator :: "Validator_obj option"

definition PatternValidator_init :: "PatternValidator_obj \<Rightarrow> string \<Rightarrow> PatternValidator_obj" where
  "PatternValidator_init self pattern_regex =
     self\<lparr>validator := Some (Validator_init pattern_regex)\<rparr>"

definition validate_pattern :: "re_rest \<Rightarrow> PatternValidator_obj \<Rightarrow> pyval \<Rightarrow> bool result" where
  "validate_pattern rest self element =
     (case validator self of
        None \<Rightarrow> Inl AttributeError
      | Some v \<Rightarrow> Validator_validate rest v (str element))"

text \<open>A list comprehension: the elements in order, the first raise ends it.\<close>

fun comprehension :: "('a \<Rightarrow> 'b result) \<Rightarrow> 'a list \<Rightarrow> 'b list result" where
  "comprehension f [] = Inr []"
| "comprehension f (e # es) =
     (case f e of
        Inl x \<Rightarrow> Inl x
      | Inr b \<Rightarrow> (case comprehension f es of Inl x \<Rightarrow> Inl x | Inr bs \<Rightarrow> Inr (b # bs)))"

definition validate_patterns :: "re_rest \<Rightarrow> PatternValidator_obj \<Rightarrow> pyval list \<Rightarrow> bool result" where
  "validate_patterns rest self args =
     (case comprehension (validate_pattern rest self) args of
        Inl e \<Rightarrow> Inl e
      | Inr bs \<Rightarrow> Inr (\<not> (False \<in> set bs)))"

text \<open>
  \<open>kwargs\<close> is the keyword dictionary of the call in its order, as a list of names
  with values. \<^verbatim>\<open>validate(self, *args, **kwargs)\<close> has the named parameter
  \<^verbatim>\<open>self\<close>, which the instance fills: a keyword of that name gives the parameter
  a second value, and binding the arguments raises \<^verbatim>\<open>TypeError\<close> before the body
  runs. \<^verbatim>\<open>and\<close> evaluates its right operand only when the left one is true.
\<close>

definition PatternValidator_validate ::
  "re_rest \<Rightarrow> PatternValidator_obj \<Rightarrow> pyval list \<Rightarrow> (string \<times> pyval) list \<Rightarrow> bool result" where
  "PatternValidator_validate rest self args kwargs =
     (if ''self'' \<in> set (map fst kwargs) then Inl TypeError
      else case validate_patterns rest self args of
             Inl e \<Rightarrow> Inl e
           | Inr a \<Rightarrow> if a then validate_patterns rest self (map snd kwargs) else Inr a)"

subsection \<open>The classes and the class method \<^verbatim>\<open>Validate\<close> (lines 79--83, 123--159)\<close>

datatype validator_class =
    PatternValidator
  | NumericValidator
  | AlphaValidator
  | AlphaNumericValidator

definition object_new :: "validator_class \<Rightarrow> PatternValidator_obj" where
  "object_new cls = \<lparr>validator = None\<rparr>"

text \<open>
  \<^verbatim>\<open>obj.__init__()\<close> with no argument, by the class of \<open>obj\<close>: the base class's
  \<^verbatim>\<open>__init__(self, pattern_regex)\<close> lacks its argument, which is a \<^verbatim>\<open>TypeError\<close>;
  each subclass passes its own pattern to the base class's \<^verbatim>\<open>__init__\<close>.
\<close>

fun init :: "validator_class \<Rightarrow> PatternValidator_obj \<Rightarrow> PatternValidator_obj result" where
  "init PatternValidator self = Inl TypeError"
| "init NumericValidator self = Inr (PatternValidator_init self NUMERIC_PATTERN)"
| "init AlphaValidator self = Inr (PatternValidator_init self ALPHA_PATTERN)"
| "init AlphaNumericValidator self = Inr (PatternValidator_init self ALPHANUMERIC_PATTERN)"

text \<open>
  \<^verbatim>\<open>Validate(cls, *args, **kwargs)\<close> is a class method: the class fills \<^verbatim>\<open>cls\<close>,
  and a keyword of that name raises \<^verbatim>\<open>TypeError\<close> when the arguments are bound.
  The body passes all its arguments on to \<^verbatim>\<open>obj.validate\<close>.
\<close>

definition Validate ::
  "re_rest \<Rightarrow> validator_class \<Rightarrow> pyval list \<Rightarrow> (string \<times> pyval) list \<Rightarrow> bool result" where
  "Validate rest cls args kwargs =
     (if ''cls'' \<in> set (map fst kwargs) then Inl TypeError
      else let obj = object_new cls in
           case init cls obj of
             Inl e \<Rightarrow> Inl e
           | Inr obj' \<Rightarrow> PatternValidator_validate rest obj' args kwargs)"


subsection \<open>Vocabulary of the claims\<close>

text \<open>A text satisfies a pattern when \<^verbatim>\<open>Validator(pattern).validate(text)\<close> is true.\<close>

definition satisfies :: "re_rest \<Rightarrow> string \<Rightarrow> string \<Rightarrow> bool" where
  "satisfies rest pattern text = (Validator_validate rest (Validator_init pattern) text = Inr True)"

text \<open>
  For the closed examples: a library that compiles every pattern outside the fragment
  (to one that matches nothing), so that whatever raises there is raised by the code
  above.
\<close>

definition lenient :: re_rest where
  "lenient pattern = Inr (\<lambda>s. None)"

definition is_digit :: "char \<Rightarrow> bool" where
  "is_digit c = (code CHR ''0'' \<le> code c \<and> code c \<le> code CHR ''9'')"

text \<open>
  The texts the numeric pattern accepts: digits only, or digits and then one final
  newline.
\<close>

definition numeric_text :: "string \<Rightarrow> bool" where
  "numeric_text s =
     (list_all is_digit s \<or> (s \<noteq> [] \<and> last s = newline \<and> list_all is_digit (butlast s)))"

section \<open>Lemmas about the model\<close>

subsection \<open>The three patterns compile\<close>

lemma parse_NUMERIC:
  "parse [] NUMERIC_PATTERN = Parsed [MAX_REPEAT (IN [RANGE CHR ''0'' CHR ''9'']), AT_END]"
  by (simp add: NUMERIC_PATTERN_def repeat_last_def backslash_def ascii_alnum_def code_def)

lemma parse_ALPHA:
  "parse [] ALPHA_PATTERN =
     Parsed [MAX_REPEAT (IN [RANGE CHR ''a'' CHR ''z'', RANGE CHR ''A'' CHR ''Z'',
                             LITERAL_item CHR ''_'']),
             AT_END]"
  by (simp add: ALPHA_PATTERN_def repeat_last_def backslash_def ascii_alnum_def code_def)

lemma parse_ALPHANUMERIC:
  "parse [] ALPHANUMERIC_PATTERN =
     Parsed [AT_BEGINNING,
             One (IN [RANGE CHR ''a'' CHR ''z'', RANGE CHR ''A'' CHR ''Z'', LITERAL_item CHR ''_'']),
             MAX_REPEAT (IN [RANGE CHR ''a'' CHR ''z'', RANGE CHR ''A'' CHR ''Z'',
                             RANGE CHR ''0'' CHR ''9'', LITERAL_item CHR ''_'',
                             LITERAL_item CHR ''$'']),
             AT_END]"
  by (simp add: ALPHANUMERIC_PATTERN_def repeat_last_def backslash_def ascii_alnum_def code_def)

lemma accepts_digit: "accepts (IN [RANGE CHR ''0'' CHR ''9'']) x = is_digit x"
  by (simp add: is_digit_def)

lemma not_digit_newline: "\<not> is_digit newline"
  by (simp add: is_digit_def newline_def code_def)

lemma numeric_text_Cons:
  "numeric_text (x # xs) = ((is_digit x \<and> numeric_text xs) \<or> (x = newline \<and> xs = []))"
  by (cases xs rule: rev_cases) (auto simp: numeric_text_def not_digit_newline)

text \<open>What the numeric pattern matches, by induction on the text.\<close>

lemma sre_match_numeric:
  "sre_match [MAX_REPEAT (IN [RANGE CHR ''0'' CHR ''9'']), AT_END] b s = numeric_text s"
proof (induction s arbitrary: b)
  case Nil
  show ?case by (simp add: numeric_text_def)
next
  case (Cons x xs)
  show ?case
    unfolding sre_match.simps(7) Cons.IH accepts_digit numeric_text_Cons
    by auto
qed

lemma compile_NUMERIC:
  "re_compile rest NUMERIC_PATTERN = Inr (\<lambda>s. if numeric_text s then Some Match else None)"
  by (simp add: re_compile_def parse_NUMERIC sre_match_numeric)

lemma compile_ALPHA:
  "re_compile rest ALPHA_PATTERN =
     Inr (\<lambda>s. if sre_match [MAX_REPEAT (IN [RANGE CHR ''a'' CHR ''z'', RANGE CHR ''A'' CHR ''Z'',
                                            LITERAL_item CHR ''_'']),
                            AT_END] True s
              then Some Match else None)"
  by (simp add: re_compile_def parse_ALPHA)

lemma compile_ALPHANUMERIC:
  "re_compile rest ALPHANUMERIC_PATTERN =
     Inr (\<lambda>s. if sre_match [AT_BEGINNING,
             One (IN [RANGE CHR ''a'' CHR ''z'', RANGE CHR ''A'' CHR ''Z'', LITERAL_item CHR ''_'']),
             MAX_REPEAT (IN [RANGE CHR ''a'' CHR ''z'', RANGE CHR ''A'' CHR ''Z'',
                             RANGE CHR ''0'' CHR ''9'', LITERAL_item CHR ''_'',
                             LITERAL_item CHR ''$'']),
             AT_END] True s
              then Some Match else None)"
  by (simp add: re_compile_def parse_ALPHANUMERIC)

subsection \<open>\<^verbatim>\<open>Validator.validate\<close>\<close>

lemma Validator_validate_compiled:
  "re_compile rest p = Inr c \<Longrightarrow> Validator_validate rest (Validator_init p) s = Inr (c s \<noteq> None)"
  by (auto simp: Validator_validate_def Validator_init_def re_match_def py_bool_def
      split: option.splits)

lemma Validator_validate_rejected:
  "re_compile rest p = Inl e \<Longrightarrow> Validator_validate rest (Validator_init p) s = Inl e"
  by (simp add: Validator_validate_def Validator_init_def re_match_def)

lemma compile_rejected:
  "parse [] p = Rejected \<Longrightarrow> re_compile rest p = Inl re_error"
  by (simp add: re_compile_def)

lemma Validator_NUMERIC:
  "Validator_validate rest (Validator_init NUMERIC_PATTERN) s = Inr (numeric_text s)"
  by (simp add: Validator_validate_compiled [OF compile_NUMERIC])

lemma satisfies_compiled:
  "re_compile rest p = Inr c \<Longrightarrow> satisfies rest p s = (c s \<noteq> None)"
  by (simp add: satisfies_def Validator_validate_compiled)

lemma satisfies_rejected:
  "re_compile rest p = Inl e \<Longrightarrow> \<not> satisfies rest p s"
  by (simp add: satisfies_def Validator_validate_def Validator_init_def re_match_def)

lemma numeric_text_123: "numeric_text ''123''"
  by (simp add: numeric_text_def is_digit_def code_def)

lemma numeric_text_12a: "\<not> numeric_text ''12a''"
  by (simp add: numeric_text_def is_digit_def code_def newline_def)

lemma numeric_text_empty: "numeric_text ''''"
  by (simp add: numeric_text_def)

lemma numeric_text_12: "numeric_text ''12''"
  by (simp add: numeric_text_def is_digit_def code_def)

lemma numeric_text_12nl: "numeric_text (''12'' @ [newline])"
  by (simp add: numeric_text_def is_digit_def code_def)


subsection \<open>\<^verbatim>\<open>PatternValidator.validate\<close>\<close>

lemma comprehension_total:
  "(\<And>x. x \<in> set xs \<Longrightarrow> f x = Inr (g x)) \<Longrightarrow> comprehension f xs = Inr (map g xs)"
  by (induction xs) auto

lemma comprehension_raises:
  "xs \<noteq> [] \<Longrightarrow> (\<And>x. x \<in> set xs \<Longrightarrow> f x = Inl e) \<Longrightarrow> comprehension f xs = Inl e"
  by (cases xs) auto

lemma validate_pattern_compiled:
  "re_compile rest p = Inr c \<Longrightarrow>
   validate_pattern rest (PatternValidator_init obj p) v = Inr (c (str v) \<noteq> None)"
  by (auto simp: validate_pattern_def PatternValidator_init_def Validator_validate_def
      Validator_init_def re_match_def py_bool_def split: option.splits)

lemma validate_pattern_rejected:
  "re_compile rest p = Inl e \<Longrightarrow>
   validate_pattern rest (PatternValidator_init obj p) v = Inl e"
  by (auto simp: validate_pattern_def PatternValidator_init_def Validator_validate_def
      Validator_init_def re_match_def)

lemma validate_patterns_compiled:
  assumes "re_compile rest p = Inr c"
  shows "validate_patterns rest (PatternValidator_init obj p) vs
         = Inr (\<forall>v\<in>set vs. c (str v) \<noteq> None)"
proof -
  have "comprehension (validate_pattern rest (PatternValidator_init obj p)) vs
        = Inr (map (\<lambda>v. c (str v) \<noteq> None) vs)"
    by (rule comprehension_total) (simp add: validate_pattern_compiled [OF assms])
  then show ?thesis
    by (auto simp: validate_patterns_def)
qed

text \<open>
  A pattern that does not compile raises at the first element that is checked, so a
  call with nothing to check still returns true.
\<close>

lemma validate_patterns_rejected:
  assumes "re_compile rest p = Inl e"
  shows "validate_patterns rest (PatternValidator_init obj p) vs
         = (if vs = [] then Inr True else Inl e)"
proof (cases "vs = []")
  case True
  then show ?thesis by (simp add: validate_patterns_def)
next
  case False
  then have "comprehension (validate_pattern rest (PatternValidator_init obj p)) vs = Inl e"
    by (rule comprehension_raises) (simp add: validate_pattern_rejected [OF assms])
  with False show ?thesis
    by (simp add: validate_patterns_def)
qed

lemma validate_keyword_self:
  "''self'' \<in> set (map fst kwargs) \<Longrightarrow>
   PatternValidator_validate rest self args kwargs = Inl TypeError"
  by (simp add: PatternValidator_validate_def)

lemma validate_compiled:
  assumes "re_compile rest p = Inr c" and "''self'' \<notin> set (map fst kwargs)"
  shows "PatternValidator_validate rest (PatternValidator_init obj p) args kwargs
         = Inr ((\<forall>v\<in>set args. c (str v) \<noteq> None) \<and>
                (\<forall>v\<in>set (map snd kwargs). c (str v) \<noteq> None))"
  using assms(2)
  unfolding PatternValidator_validate_def validate_patterns_compiled [OF assms(1)]
  by auto

lemma validate_rejected:
  assumes "re_compile rest p = Inl e" and "''self'' \<notin> set (map fst kwargs)"
  shows "PatternValidator_validate rest (PatternValidator_init obj p) args kwargs
         = (if args = [] \<and> kwargs = [] then Inr True else Inl e)"
  using assms(2)
  unfolding PatternValidator_validate_def validate_patterns_rejected [OF assms(1)]
  by auto



subsection \<open>\<^verbatim>\<open>Validate\<close>\<close>



lemma Validate_NumericValidator:
  "Validate rest NumericValidator [PyStr s] [] = Inr (numeric_text s)"
  by (simp add: Validate_def validate_compiled [OF compile_NUMERIC])

lemma Validate_AlphaNumericValidator_single:
  "Validate rest AlphaNumericValidator [PyStr s] [] =
     Validator_validate rest (Validator_init ALPHANUMERIC_PATTERN) s"
  by (simp add: Validate_def validate_compiled [OF compile_ALPHANUMERIC]
      Validator_validate_compiled [OF compile_ALPHANUMERIC])


section \<open>The claims\<close>

subsection \<open>\<^verbatim>\<open>PatternValidator.validate\<close>\<close>

text \<open>
  C1, as stated, fails at a keyword named \<^verbatim>\<open>self\<close>: the value \<^verbatim>\<open>12\<close> satisfies the
  numeric pattern, and \<^verbatim>\<open>validate(**{"self": "12"})\<close> does not return true but
  raises \<^verbatim>\<open>TypeError\<close>, because the name collides with the method's own parameter.
\<close>

theorem keyword_self_raises_counterexample:
  "satisfies lenient NUMERIC_PATTERN (str (PyStr ''12'')) \<and>
   PatternValidator_validate lenient
     (PatternValidator_init (object_new PatternValidator) NUMERIC_PATTERN)
     [] [(''self'', PyStr ''12'')] = Inl TypeError"
  by (simp add: satisfies_def Validator_NUMERIC numeric_text_12 validate_keyword_self)

text \<open>
  C1, amended. For every pattern \<open>p\<close> and every call with no keyword named
  \<^verbatim>\<open>self\<close>, \<^verbatim>\<open>PatternValidator(p).validate(*args, **kwargs)\<close> returns true if and
  only if the \<^verbatim>\<open>str\<close> of every positional argument satisfies \<open>p\<close> and the
  \<^verbatim>\<open>str\<close> of every keyword value satisfies \<open>p\<close>; a call with a keyword named
  \<^verbatim>\<open>self\<close> raises \<^verbatim>\<open>TypeError\<close>; a call with no argument at all returns true for
  every pattern. This holds for every string \<open>p\<close>, also one that \<^verbatim>\<open>re\<close> does not
  compile: then no text satisfies it, and the call returns true only when there is
  nothing to check.
\<close>

theorem validate_true_iff_all_satisfy:
  "(''self'' \<notin> set (map fst kwargs) \<longrightarrow>
      (PatternValidator_validate rest (PatternValidator_init (object_new PatternValidator) p)
         args kwargs = Inr True)
      = ((\<forall>a\<in>set args. satisfies rest p (str a)) \<and>
         (\<forall>(k, v)\<in>set kwargs. satisfies rest p (str v))))
   \<and> (''self'' \<in> set (map fst kwargs) \<longrightarrow>
      PatternValidator_validate rest (PatternValidator_init (object_new PatternValidator) p)
        args kwargs = Inl TypeError)
   \<and> PatternValidator_validate rest (PatternValidator_init (object_new PatternValidator) p)
        [] [] = Inr True"
proof (intro conjI impI)
  assume free: "''self'' \<notin> set (map fst kwargs)"
  show "(PatternValidator_validate rest (PatternValidator_init (object_new PatternValidator) p)
         args kwargs = Inr True)
      = ((\<forall>a\<in>set args. satisfies rest p (str a)) \<and>
         (\<forall>(k, v)\<in>set kwargs. satisfies rest p (str v)))"
  proof (cases "re_compile rest p")
    case (Inl e)
    show ?thesis
      unfolding validate_rejected [OF Inl free]
      by (cases args; cases kwargs) (auto simp: satisfies_rejected [OF Inl])
  next
    case (Inr c)
    show ?thesis
      unfolding validate_compiled [OF Inr free]
      by (auto simp: satisfies_compiled [OF Inr])
  qed
next
  assume "''self'' \<in> set (map fst kwargs)"
  then show "PatternValidator_validate rest
      (PatternValidator_init (object_new PatternValidator) p) args kwargs = Inl TypeError"
    by (rule validate_keyword_self)
next
  show "PatternValidator_validate rest (PatternValidator_init (object_new PatternValidator) p)
        [] [] = Inr True"
    by (cases "re_compile rest p") (simp_all add: validate_rejected validate_compiled)
qed

text \<open>The first call of the docstring of \<^verbatim>\<open>PatternValidator\<close>.\<close>

theorem validate_true_iff_all_satisfy_witness:
  "''self'' \<notin> set (map fst [(''option'', PyStr ''zeke'')]) \<and>
   satisfies lenient ALPHA_PATTERN ''le'' \<and>
   satisfies lenient ALPHA_PATTERN ''reg'' \<and>
   satisfies lenient ALPHA_PATTERN ''__okei'' \<and>
   satisfies lenient ALPHA_PATTERN ''zeke'' \<and>
   PatternValidator_validate lenient
     (PatternValidator_init (object_new PatternValidator) ALPHA_PATTERN)
     [PyStr ''le'', PyStr ''reg'', PyStr ''__okei''] [(''option'', PyStr ''zeke'')] = Inr True"
proof -
  have "PatternValidator_validate lenient
     (PatternValidator_init (object_new PatternValidator) ALPHA_PATTERN)
     [PyStr ''le'', PyStr ''reg'', PyStr ''__okei''] [(''option'', PyStr ''zeke'')] = Inr True"
    by code_simp
  with validate_true_iff_all_satisfy [of "[(''option'', PyStr ''zeke'')]" lenient ALPHA_PATTERN
      "[PyStr ''le'', PyStr ''reg'', PyStr ''__okei'']"]
  show ?thesis by simp
qed




text \<open>
  C7, as stated, fails: the validate operations raise \<^verbatim>\<open>re.error\<close> for a pattern
  that \<^verbatim>\<open>re\<close> does not compile. The constructors only store the pattern, and
  \<^verbatim>\<open>re.match\<close> compiles it when a text is checked. The pattern \<^verbatim>\<open>[\<close> is an
  unterminated character set.
\<close>

theorem malformed_pattern_counterexample:
  "Validator_validate lenient (Validator_init ''['') ''a'' = Inl re_error \<and>
   PatternValidator_validate lenient (PatternValidator_init (object_new PatternValidator) ''['')
     [PyStr ''a''] [] = Inl re_error"
  by code_simp

text \<open>
  C7, amended. For every pattern that \<^verbatim>\<open>re\<close> compiles, \<^verbatim>\<open>Validator.validate\<close>
  returns a boolean for every text, and \<^verbatim>\<open>PatternValidator.validate\<close> returns a
  boolean for every call with no keyword named \<^verbatim>\<open>self\<close>; neither raises. For a
  pattern that \<^verbatim>\<open>re\<close> does not compile, the error of the compilation (\<^verbatim>\<open>re.error\<close>
  for a pattern that the parser rejects) is raised as soon as a value is checked: by
  \<^verbatim>\<open>Validator.validate\<close> always, and by \<^verbatim>\<open>PatternValidator.validate\<close> in every
  call that has a value and no keyword named \<^verbatim>\<open>self\<close>.
\<close>

theorem validate_returns_bool_or_compile_error:
  "(re_compile rest p = Inr c \<longrightarrow>
      (\<exists>b. Validator_validate rest (Validator_init p) s = Inr b) \<and>
      (''self'' \<notin> set (map fst kwargs) \<longrightarrow>
         (\<exists>b. PatternValidator_validate rest
                (PatternValidator_init (object_new PatternValidator) p) args kwargs = Inr b)))
   \<and> (re_compile rest p = Inl e \<longrightarrow>
      Validator_validate rest (Validator_init p) s = Inl e \<and>
      (''self'' \<notin> set (map fst kwargs) \<and> (args \<noteq> [] \<or> kwargs \<noteq> []) \<longrightarrow>
         PatternValidator_validate rest
           (PatternValidator_init (object_new PatternValidator) p) args kwargs = Inl e))
   \<and> (parse [] p = Rejected \<longrightarrow> re_compile rest p = Inl re_error)"
  by (auto simp: Validator_validate_compiled Validator_validate_rejected validate_compiled
      validate_rejected compile_rejected)

theorem validate_returns_bool_or_compile_error_witness:
  "(\<exists>c. re_compile lenient ALPHA_PATTERN = Inr c) \<and>
   ''self'' \<notin> set (map fst [(''option'', PyStr ''982092878'')]) \<and>
   (\<exists>b. Validator_validate lenient (Validator_init ALPHA_PATTERN) ''abc1'' = Inr b) \<and>
   (\<exists>b. PatternValidator_validate lenient
          (PatternValidator_init (object_new PatternValidator) ALPHA_PATTERN)
          [PyStr ''le'', PyStr ''reg''] [(''option'', PyStr ''982092878'')] = Inr b) \<and>
   parse [] ''*a'' = Rejected \<and>
   re_compile lenient ''*a'' = Inl re_error \<and>
   Validator_validate lenient (Validator_init ''*a'') ''abc1'' = Inl re_error \<and>
   PatternValidator_validate lenient (PatternValidator_init (object_new PatternValidator) ''*a'')
     [PyStr ''le'', PyStr ''reg''] [(''option'', PyStr ''982092878'')] = Inl re_error"
proof -
  have rej: "parse [] ''*a'' = Rejected"
    by (simp add: repeat_last_def)
  have free: "''self'' \<notin> set (map fst [(''option'', PyStr ''982092878'')])"
    by simp
  note ok = validate_returns_bool_or_compile_error [of lenient ALPHA_PATTERN _ "''abc1''"
      "[(''option'', PyStr ''982092878'')]" "[PyStr ''le'', PyStr ''reg'']" re_error]
  note bad = validate_returns_bool_or_compile_error [of lenient "''*a''" "\<lambda>s. None" "''abc1''"
      "[(''option'', PyStr ''982092878'')]" "[PyStr ''le'', PyStr ''reg'']" re_error]
  from bad rej have comp: "re_compile lenient ''*a'' = Inl re_error"
    by blast
  from bad comp free have
    "Validator_validate lenient (Validator_init ''*a'') ''abc1'' = Inl re_error"
    "PatternValidator_validate lenient (PatternValidator_init (object_new PatternValidator) ''*a'')
       [PyStr ''le'', PyStr ''reg''] [(''option'', PyStr ''982092878'')] = Inl re_error"
    by simp_all
  moreover from ok compile_ALPHA [of lenient] free have
    "\<exists>b. Validator_validate lenient (Validator_init ALPHA_PATTERN) ''abc1'' = Inr b"
    "\<exists>b. PatternValidator_validate lenient
          (PatternValidator_init (object_new PatternValidator) ALPHA_PATTERN)
          [PyStr ''le'', PyStr ''reg''] [(''option'', PyStr ''982092878'')] = Inr b"
    by simp_all
  ultimately show ?thesis
    using rej comp free compile_ALPHA [of lenient] by simp
qed

subsection \<open>The shipped patterns\<close>

text \<open>
  C4, as stated, fails in its second part: a text with a character that is not a digit
  can pass the numeric pattern, because \<^verbatim>\<open>$\<close> also matches just before a newline
  that ends the text. \<^verbatim>\<open>12\<close> followed by a newline is accepted.
\<close>

theorem numeric_trailing_newline_counterexample:
  "\<not> list_all is_digit (''12'' @ [newline]) \<and>
   Validator_validate lenient (Validator_init NUMERIC_PATTERN) (''12'' @ [newline]) = Inr True \<and>
   Validate lenient NumericValidator [PyStr (''12'' @ [newline])] [] = Inr True"
  using numeric_text_12nl
  by (simp add: Validator_NUMERIC Validate_NumericValidator not_digit_newline)

text \<open>
  C4, amended. The numeric validator's \<^verbatim>\<open>validate(s)\<close> is true exactly for the texts
  that consist of digits only, or of digits followed by one final newline, and false
  for every other text; \<^verbatim>\<open>validate("123")\<close> is true, \<^verbatim>\<open>validate("12a")\<close> is false
  and \<^verbatim>\<open>validate("")\<close> is true.
\<close>

theorem numeric_validate:
  "Validator_validate rest (Validator_init NUMERIC_PATTERN) s = Inr (numeric_text s) \<and>
   Validate rest NumericValidator [PyStr s] [] = Inr (numeric_text s) \<and>
   Validator_validate rest (Validator_init NUMERIC_PATTERN) ''123'' = Inr True \<and>
   Validator_validate rest (Validator_init NUMERIC_PATTERN) ''12a'' = Inr False \<and>
   Validator_validate rest (Validator_init NUMERIC_PATTERN) '''' = Inr True"
  by (simp add: Validator_NUMERIC Validate_NumericValidator numeric_text_123 numeric_text_12a
      numeric_text_empty)

theorem numeric_validate_witness:
  "Validator_validate lenient (Validator_init NUMERIC_PATTERN) ''2024'' = Inr True \<and>
   Validator_validate lenient (Validator_init NUMERIC_PATTERN) (''7'' @ [newline]) = Inr True \<and>
   Validator_validate lenient (Validator_init NUMERIC_PATTERN) ''7 '' = Inr False"
  using numeric_validate [of lenient "''2024''"] numeric_validate [of lenient "''7'' @ [newline]"]
    numeric_validate [of lenient "''7 ''"]
  by (simp add: numeric_text_def is_digit_def code_def newline_def)

text \<open>
  C5. The alphanumeric validator: \<^verbatim>\<open>validate("_a9$")\<close> is true, \<^verbatim>\<open>validate("9abc")\<close>
  is false and \<^verbatim>\<open>validate("")\<close> is false, while the numeric and the alpha pattern
  accept the empty text.
\<close>

theorem alphanumeric_examples:
  "Validator_validate rest (Validator_init ALPHANUMERIC_PATTERN) ''_a9$'' = Inr True \<and>
   Validator_validate rest (Validator_init ALPHANUMERIC_PATTERN) ''9abc'' = Inr False \<and>
   Validator_validate rest (Validator_init ALPHANUMERIC_PATTERN) '''' = Inr False \<and>
   Validate rest AlphaNumericValidator [PyStr ''_a9$''] [] = Inr True \<and>
   Validate rest AlphaNumericValidator [PyStr ''9abc''] [] = Inr False \<and>
   Validate rest AlphaNumericValidator [PyStr ''''] [] = Inr False \<and>
   Validator_validate rest (Validator_init NUMERIC_PATTERN) '''' = Inr True \<and>
   Validator_validate rest (Validator_init ALPHA_PATTERN) '''' = Inr True"
  by (simp add: Validate_AlphaNumericValidator_single
      Validator_validate_compiled [OF compile_ALPHANUMERIC]
      Validator_validate_compiled [OF compile_ALPHA] Validator_NUMERIC numeric_text_empty
      code_def newline_def)

subsection \<open>The class method \<^verbatim>\<open>Validate\<close>\<close>




text \<open>
  C10. Calling \<^verbatim>\<open>Validate\<close> on the base class \<^verbatim>\<open>PatternValidator\<close> raises
  \<^verbatim>\<open>TypeError\<close> for all arguments: \<^verbatim>\<open>obj.__init__()\<close> lacks the pattern that the
  base class's \<^verbatim>\<open>__init__\<close> requires, so no boolean is ever returned.
\<close>

theorem base_Validate_raises_TypeError:
  "Validate rest PatternValidator args kwargs = Inl TypeError"
  by (simp add: Validate_def)

end
